theory Spec2Isabelle
  imports Complex_Main
begin

section \<open>The LoRa node script \<open>lora/CircuitPython/node1/code.py\<close>\<close>

text \<open>
  The script is one module: hardware set-up, a start-up broadcast, and an unbounded
  \<open>while True\<close> loop that rebuilds a display frame, polls the radio, renders a
  received packet and sends a counter-stamped message when the transmit interval has
  passed.

  What the script does to the outside world (radio, display, LED, console, clock, sleep)
  is recorded as a list of events, in program order. What the outside world hands to the
  script (the result of \<open>rfm9x.receive\<close>, the value of \<open>rfm9x.last_rssi\<close>,
  the readings of \<open>time.monotonic()\<close>) is an input of each iteration.

  Python \<open>bytes\<close>, \<open>bytearray\<close> and ASCII \<open>str\<close> values are
  \<open>char list\<close>: a HOL \<open>char\<close> is one byte. A Python float is the real number
  it stands for. Float subtraction is the exact difference rounded to the float format;
  the rounding belongs to the interpreter, so the loop takes it as a parameter
  \<open>rnd\<close>, and \<open>round_binary64\<close> below is the rounding of a 64-bit float.
\<close>

subsection \<open>Python text formatting used by the script\<close>

type_synonym bytes = "char list"

definition digit_char :: "nat \<Rightarrow> char" where
  "digit_char d = (''0123456789abcdef'' ! d)"

text \<open>\<open>"{}".format(n)\<close> for a non-negative integer: its decimal digits.\<close>

function str_nat :: "nat \<Rightarrow> string" where
  "str_nat n = (if n < 10 then [digit_char n] else str_nat (n div 10) @ [digit_char (n mod 10)])"
  by pat_completeness auto
termination
  by (relation "measure id") auto

declare str_nat.simps [simp del]

text \<open>\<open>"{}".format(i)\<close> for a Python \<open>int\<close>.\<close>

definition str_int :: "int \<Rightarrow> string" where
  "str_int i = (if i < 0 then CHR ''-'' # str_nat (nat (- i)) else str_nat (nat i))"

function hex_nat :: "nat \<Rightarrow> string" where
  "hex_nat n = (if n < 16 then [digit_char n] else hex_nat (n div 16) @ [digit_char (n mod 16)])"
  by pat_completeness auto
termination
  by (relation "measure id") auto

declare hex_nat.simps [simp del]

text \<open>Python \<open>hex(x)\<close> for one byte \<open>x\<close> of a \<open>bytes\<close> object.\<close>

definition py_hex :: "char \<Rightarrow> string" where
  "py_hex c = ''0x'' @ hex_nat (of_char c)"

definition squote :: char where
  "squote = CHR 0x27"

definition dquote :: char where
  "dquote = CHR 0x22"

definition backslash :: char where
  "backslash = CHR 0x5C"

text \<open>
  \<open>repr\<close> of a \<open>bytes\<close> object, which \<open>"{0}".format(b)\<close> yields: the
  prefix \<open>b\<close>, a quote (a double quote exactly when the bytes hold a single quote and
  no double quote), and each byte as itself when it is printable ASCII, escaped
  otherwise.
\<close>

definition bytes_quote :: "bytes \<Rightarrow> char" where
  "bytes_quote b = (if squote \<in> set b \<and> dquote \<notin> set b then dquote else squote)"

definition escape_byte :: "char \<Rightarrow> char \<Rightarrow> string" where
  "escape_byte q c =
     (if c = q then [backslash, q]
      else if c = backslash then [backslash, backslash]
      else if c = CHR 0x09 then [backslash, CHR ''t'']
      else if c = CHR 0x0A then [backslash, CHR ''n'']
      else if c = CHR 0x0D then [backslash, CHR ''r'']
      else if (of_char c :: nat) < 0x20 \<or> 0x7F \<le> (of_char c :: nat)
        then [backslash, CHR ''x'', digit_char (of_char c div 16), digit_char (of_char c mod 16)]
      else [c])"

definition bytes_repr :: "bytes \<Rightarrow> string" where
  "bytes_repr b =
     (let q = bytes_quote b in CHR ''b'' # q # concat (map (escape_byte q) b) @ [q])"

text \<open>\<open>repr\<close> of a \<open>str\<close> without quotes or control characters (the \<open>hex\<close> strings).\<close>

definition str_repr :: "string \<Rightarrow> string" where
  "str_repr s = squote # s @ [squote]"

fun join :: "string \<Rightarrow> string list \<Rightarrow> string" where
  "join sep [] = []"
| "join sep [x] = x"
| "join sep (x # y # ys) = x @ sep @ join sep (y # ys)"

text \<open>\<open>str\<close> of a list of such strings, as \<open>print\<close> shows it.\<close>

definition list_repr :: "string list \<Rightarrow> string" where
  "list_repr xs = ''['' @ join '', '' (map str_repr xs) @ '']''"

subsection \<open>Float rounding\<close>

text \<open>
  Rounding to the nearest integer, ties to the even one.
\<close>

definition round_half_even :: "real \<Rightarrow> int" where
  "round_half_even y =
     (let f = \<lfloor>y\<rfloor>
      in if y - of_int f < 1 / 2 then f
         else if 1 / 2 < y - of_int f then f + 1
         else if even f then f else f + 1)"

definition pow2 :: "int \<Rightarrow> real" where
  "pow2 k = (if 0 \<le> k then 2 ^ nat k else 1 / 2 ^ nat (- k))"

definition float_exponent :: "real \<Rightarrow> int" where
  "float_exponent x = \<lfloor>log 2 \<bar>x\<bar>\<rfloor>"

text \<open>
  Rounding of a real number to a float with 53 significant bits, to nearest, ties to
  even: the result of an arithmetic operation on 64-bit floats. The exponent range is
  not bounded here (no overflow, no subnormal numbers); clock readings in seconds are far
  from both ends.
\<close>

definition round_binary64 :: "real \<Rightarrow> real" where
  "round_binary64 x =
     (if x = 0 then 0
      else (let u = pow2 (float_exponent x - 52)
            in u * of_int (round_half_even (x / u))))"

subsection \<open>Display objects, events and the state of the node\<close>

datatype bitmap = Bitmap nat nat nat

type_synonym palette = "nat list"

text \<open>
  The members of a \<open>displayio.Group\<close>: a tile grid (bitmap, palette, x, y) or a text
  label in \<open>terminalio.FONT\<close> (text, colour, x, y).
\<close>

datatype element =
    is_TileGrid: TileGrid bitmap palette int int
  | is_Label: Label (label_text: string) (label_color: nat) (label_x: int) (label_y: int)

text \<open>
  Groups are objects that the script mutates after it has handed them to the display,
  so they live in a store: \<open>groups\<close> holds the members of every group created so
  far, a group is named by its index, and \<open>root_group\<close> is the group last given to
  \<open>display.show\<close>.
\<close>

record node_state =
  radio_node :: int
  radio_destination :: int
  counter :: int
  now :: real
  led :: bool
  groups :: "element list list"
  root_group :: "nat option"

datatype event =
    is_Send: Send bytes bool
  | is_Print: Print string
  | is_Monotonic: Monotonic real
  | is_NewGroup: NewGroup nat
  | is_Show: Show nat
  | is_Append: Append nat element
  | is_Led: Led bool
  | is_Receive: Receive bool "bytes option"
  | is_Refresh: Refresh
  | is_Sleep: Sleep real

text \<open>
  The inputs of one iteration: what \<open>rfm9x.receive(with_header=True)\<close> returns,
  the value of \<open>rfm9x.last_rssi\<close> after that call, the reading of
  \<open>time.monotonic()\<close> in the test of line 103 and the reading of the second call,
  on line 104, which is made only when the test succeeds.
\<close>

record iter_in =
  packet :: "bytes option"
  last_rssi :: int
  t_check :: real
  t_now :: real

definition WIDTH :: nat where
  "WIDTH = 128"

definition HEIGHT :: nat where
  "HEIGHT = 64"

definition transmit_interval :: real where
  "transmit_interval = 1"

subsection \<open>Start-up (lines 50 to 65)\<close>

definition startup :: "real \<Rightarrow> node_state \<times> event list" where
  "startup t0 =
     (let node = 1;
          destination = 2;
          counter0 = 0
      in (\<lparr>radio_node = node, radio_destination = destination, counter = counter0,
           now = t0, led = True, groups = [], root_group = None\<rparr>,
          [Send (''Startup message '' @ str_int counter0 @ '' from node '' @ str_int node) False,
           Print ''Waiting for packets...'',
           Monotonic t0,
           Led True]))"

subsection \<open>The loop body (lines 68 to 113)\<close>

definition group_append :: "nat \<Rightarrow> element \<Rightarrow> node_state \<Rightarrow> node_state" where
  "group_append g e s = s\<lparr>groups := (groups s)[g := groups s ! g @ [e]]\<rparr>"

text \<open>Lines 69 to 77: a new group, shown while still empty, then given the background.\<close>

definition make_frame :: "node_state \<Rightarrow> nat \<times> node_state \<times> event list" where
  "make_frame s =
     (let splash = length (groups s);
          s1 = s\<lparr>groups := groups s @ [[]]\<rparr>;
          s2 = s1\<lparr>root_group := Some splash\<rparr>;
          color_bitmap = Bitmap WIDTH HEIGHT 1;
          color_palette = (replicate 1 0)[0 := 0x000000];
          bg_sprite = TileGrid color_bitmap color_palette 0 0;
          s3 = group_append splash bg_sprite s2
      in (splash, s3, [NewGroup splash, Show splash, Append splash bg_sprite]))"

text \<open>
  Lines 85 to 102: the branch taken when \<open>packet is not None\<close>. The radio driver
  hands the packet over as a \<open>bytearray\<close>: line 88 prints the slice as it is, in the
  form \<open>bytearray(b'...')\<close>, and line 89 converts it to \<open>bytes\<close> before
  formatting the label text.
\<close>

definition show_packet :: "nat \<Rightarrow> bytes \<Rightarrow> int \<Rightarrow> node_state \<Rightarrow> node_state \<times> event list" where
  "show_packet splash p rssi s =
     (let text3 = bytes_repr (drop 4 p);
          text3_area = Label text3 0xFFFFFF 0 10;
          s1 = group_append splash text3_area s;
          text2 = ''RSSI: '' @ str_int rssi;
          text2_area = Label text2 0xFFFFFF 0 25;
          s2 = group_append splash text2_area s1;
          s3 = s2\<lparr>led := True\<rparr>
      in (s3,
          [Print (''Received (raw header): '' @ list_repr (map py_hex (take 4 p))),
           Print (''Received (raw payload): bytearray('' @ bytes_repr (drop 4 p) @ '')''),
           Append splash text3_area,
           Print (''Received RSSI: '' @ str_int rssi),
           Append splash text2_area,
           Refresh,
           Led True,
           Sleep (1 / 2)]))"

text \<open>
  Lines 103 to 112: the transmit test and the periodic send. The test compares the float
  difference \<open>time.monotonic() - now\<close>, that is \<open>rnd\<close> of the exact difference,
  with the interval.
\<close>

definition periodic_send ::
  "(real \<Rightarrow> real) \<Rightarrow> real \<Rightarrow> real \<Rightarrow> node_state \<Rightarrow> node_state \<times> event list" where
  "periodic_send rnd tc tn s =
     (if rnd (tc - now s) > transmit_interval then
        (let s1 = s\<lparr>now := tn\<rparr>;
             s2 = s1\<lparr>counter := counter s1 + 1\<rparr>
         in (s2,
             [Monotonic tc, Monotonic tn,
              Send (''msg num '' @ str_int (counter s2) @ '' node '' @ str_int (radio_node s2)) True]))
      else (s, [Monotonic tc]))"

definition loop_body ::
  "(real \<Rightarrow> real) \<Rightarrow> node_state \<Rightarrow> iter_in \<Rightarrow> node_state \<times> event list" where
  "loop_body rnd s i =
     (let (splash, s1, e1) = make_frame s;
          s2 = s1\<lparr>led := False\<rparr>;
          (s3, e3) = (case packet i of
                        None \<Rightarrow> (s2, [])
                      | Some p \<Rightarrow> show_packet splash p (last_rssi i) s2);
          (s4, e4) = periodic_send rnd (t_check i) (t_now i) s3
      in (s4, e1 @ [Led False, Receive True (packet i)] @ e3 @ e4))"

text \<open>
  The loop has no exit. \<open>run rnd s is\<close> is its first \<open>length is\<close> iterations,
  the \<open>k\<close>-th on the inputs \<open>is ! k\<close>.
\<close>

fun run :: "(real \<Rightarrow> real) \<Rightarrow> node_state \<Rightarrow> iter_in list \<Rightarrow> node_state \<times> event list" where
  "run rnd s [] = (s, [])"
| "run rnd s (i # is) =
     (let (s1, e1) = loop_body rnd s i;
          (s2, e2) = run rnd s1 is
      in (s2, e1 @ e2))"

subsection \<open>Observations on states and event lists\<close>

text \<open>The members of the group that the display currently shows.\<close>

definition frame_of :: "node_state \<Rightarrow> element list" where
  "frame_of s =
     (case root_group s of
        None \<Rightarrow> []
      | Some g \<Rightarrow> if g < length (groups s) then groups s ! g else [])"

definition labels :: "element list \<Rightarrow> element list" where
  "labels es = filter is_Label es"

definition sends :: "event list \<Rightarrow> event list" where
  "sends es = filter is_Send es"

text \<open>The time an event list spends in \<open>time.sleep\<close>.\<close>

fun sleep_total :: "event list \<Rightarrow> real" where
  "sleep_total [] = 0"
| "sleep_total (Sleep d # es) = d + sleep_total es"
| "sleep_total (e # es) = sleep_total es"

text \<open>The background tile grid that lines 72 to 76 build.\<close>

definition background :: element where
  "background = TileGrid (Bitmap 128 64 1) [0] 0 0"



subsection \<open>The loop body in closed form\<close>

lemma make_frame_eq:
  "make_frame s =
     (length (groups s),
      s\<lparr>groups := groups s @ [[background]], root_group := Some (length (groups s))\<rparr>,
      [NewGroup (length (groups s)), Show (length (groups s)),
       Append (length (groups s)) background])"
  by (simp add: make_frame_def group_append_def background_def WIDTH_def HEIGHT_def Let_def)

lemma periodic_send_state:
  "fst (periodic_send rnd tc tn s) =
     (if transmit_interval < rnd (tc - now s) then s\<lparr>now := tn, counter := counter s + 1\<rparr> else s)"
  by (simp add: periodic_send_def Let_def)

lemma periodic_send_events:
  "snd (periodic_send rnd tc tn s) =
     Monotonic tc #
     (if transmit_interval < rnd (tc - now s)
      then [Monotonic tn,
            Send (''msg num '' @ str_int (counter s + 1) @ '' node '' @ str_int (radio_node s)) True]
      else [])"
  by (simp add: periodic_send_def Let_def)

lemma loop_body_state:
  "fst (loop_body rnd s i) =
     (let fr = background #
               (case packet i of
                  None \<Rightarrow> []
                | Some p \<Rightarrow> [Label (bytes_repr (drop 4 p)) 0xFFFFFF 0 10,
                             Label (''RSSI: '' @ str_int (last_rssi i)) 0xFFFFFF 0 25]);
          due = (transmit_interval < rnd (t_check i - now s))
      in s\<lparr>groups := groups s @ [fr],
           root_group := Some (length (groups s)),
           led := (packet i \<noteq> None),
           now := (if due then t_now i else now s),
           counter := (if due then counter s + 1 else counter s)\<rparr>)"
  by (cases "packet i")
     (simp_all add: loop_body_def make_frame_eq show_packet_def group_append_def
        periodic_send_state split_beta Let_def)

lemma loop_body_events:
  "snd (loop_body rnd s i) =
     [NewGroup (length (groups s)), Show (length (groups s)),
      Append (length (groups s)) background, Led False, Receive True (packet i)] @
     (case packet i of
        None \<Rightarrow> []
      | Some p \<Rightarrow>
          [Print (''Received (raw header): '' @ list_repr (map py_hex (take 4 p))),
           Print (''Received (raw payload): bytearray('' @ bytes_repr (drop 4 p) @ '')''),
           Append (length (groups s)) (Label (bytes_repr (drop 4 p)) 0xFFFFFF 0 10),
           Print (''Received RSSI: '' @ str_int (last_rssi i)),
           Append (length (groups s)) (Label (''RSSI: '' @ str_int (last_rssi i)) 0xFFFFFF 0 25),
           Refresh, Led True, Sleep (1 / 2)]) @
     Monotonic (t_check i) #
     (if transmit_interval < rnd (t_check i - now s)
      then [Monotonic (t_now i),
            Send (''msg num '' @ str_int (counter s + 1) @ '' node '' @ str_int (radio_node s)) True]
      else [])"
  by (cases "packet i")
     (simp_all add: loop_body_def make_frame_eq show_packet_def group_append_def
        periodic_send_events split_beta Let_def)

lemma frame_of_loop_body:
  "frame_of (fst (loop_body rnd s i)) =
     background #
     (case packet i of
        None \<Rightarrow> []
      | Some p \<Rightarrow> [Label (bytes_repr (drop 4 p)) 0xFFFFFF 0 10,
                   Label (''RSSI: '' @ str_int (last_rssi i)) 0xFFFFFF 0 25])"
  by (simp add: loop_body_state frame_of_def Let_def)

lemma sends_loop_body:
  "sends (snd (loop_body rnd s i)) =
     (if transmit_interval < rnd (t_check i - now s)
      then [Send (''msg num '' @ str_int (counter s + 1) @ '' node '' @ str_int (radio_node s)) True]
      else [])"
  by (cases "packet i") (simp_all add: loop_body_events sends_def)

lemma sends_append: "sends (xs @ ys) = sends xs @ sends ys"
  by (simp add: sends_def)


lemma counter_step:
  "counter (fst (loop_body rnd s i)) = counter s + int (length (sends (snd (loop_body rnd s i))))"
  by (simp add: loop_body_state sends_loop_body Let_def)

subsection \<open>Runs of several iterations\<close>




lemma counter_run:
  "counter (fst (run rnd s is)) = counter s + int (length (sends (snd (run rnd s is))))"
  by (induction "is" arbitrary: s) (simp_all add: split_beta Let_def sends_append counter_step sends_def)


subsection \<open>The rounding of 64-bit floats\<close>




lemma float_exponent_unit: "1 \<le> \<bar>x\<bar> \<Longrightarrow> \<bar>x\<bar> < 2 \<Longrightarrow> float_exponent x = 0"
proof -
  assume a: "1 \<le> \<bar>x\<bar>" and b: "\<bar>x\<bar> < 2"
  from a have "0 \<le> log 2 \<bar>x\<bar>" by simp
  moreover from a b have "log 2 \<bar>x\<bar> < 1" by (simp add: log_less_iff)
  ultimately show ?thesis unfolding float_exponent_def by (simp add: floor_eq_iff)
qed


lemma round_binary64_unit:
  "1 \<le> \<bar>x\<bar> \<Longrightarrow> \<bar>x\<bar> < 2 \<Longrightarrow>
     round_binary64 x = of_int (round_half_even (x * 2 ^ 52)) / 2 ^ 52"
  by (auto simp add: round_binary64_def float_exponent_unit pow2_def Let_def)



text \<open>
  The test of line 103 is on the float difference, not on the exact one. The 64-bit
  floats written \<open>0.3\<close> and \<open>1.3\<close> are \<open>5404319552844595 / 2^54\<close> and
  \<open>5854679515581645 / 2^52\<close>. Their exact difference is above 1, their float
  difference is 1, and an iteration with \<open>now = 0.3\<close> that reads \<open>1.3\<close> sends
  nothing.
\<close>

lemma float_difference_rounds_to_interval:
  "(1::real) < 5854679515581645 / 2 ^ 52 - 5404319552844595 / 2 ^ 54
   \<and> round_binary64 (5854679515581645 / 2 ^ 52 - 5404319552844595 / 2 ^ 54) = 1
   \<and> sends (snd (loop_body round_binary64 (fst (startup (5404319552844595 / 2 ^ 54)))
        \<lparr>packet = None, last_rssi = 0, t_check = 5854679515581645 / 2 ^ 52,
         t_now = 5854679515581645 / 2 ^ 52\<rparr>)) = []"
proof -
  have a: "(1::real) < 5854679515581645 / 2 ^ 52 - 5404319552844595 / 2 ^ 54"
    by simp
  have b: "round_binary64 (5854679515581645 / 2 ^ 52 - 5404319552844595 / 2 ^ 54) = 1"
    by (simp add: round_binary64_unit round_half_even_def)
  have "now (fst (startup (5404319552844595 / 2 ^ 54))) = 5404319552844595 / 2 ^ 54"
    by (simp add: startup_def)
  with b have c: "sends (snd (loop_body round_binary64 (fst (startup (5404319552844595 / 2 ^ 54)))
        \<lparr>packet = None, last_rssi = 0, t_check = 5854679515581645 / 2 ^ 52,
         t_now = 5854679515581645 / 2 ^ 52\<rparr>)) = []"
    by (simp add: sends_loop_body transmit_interval_def del: power_numeral)
  from a b c show ?thesis by blast
qed

subsection \<open>Concrete formatting results\<close>

lemma str_int_0: "str_int 0 = ''0''"
  by code_simp

lemma str_int_1: "str_int 1 = ''1''"
  by code_simp

lemma str_int_minus_42: "str_int (- 42) = ''-42''"
  by code_simp

lemma bytes_repr_hello: "bytes_repr ''hello'' = CHR ''b'' # CHR 0x27 # ''hello'' @ [CHR 0x27]"
  by code_simp

section \<open>The claims\<close>

subsection \<open>C1: when the periodic transmit fires\<close>




subsection \<open>C2: the message counter\<close>

text \<open>
  Claim C2. The start-up leaves the counter at 0 and sends exactly one message, whose
  payload holds that counter value and the node address 1. An iteration whose transmit
  test succeeds sets the counter to its old value plus one and sends one message holding
  the new value and the node address; any other iteration leaves the counter alone and
  sends nothing. So after any number of iterations the counter is the number of periodic
  messages sent.
\<close>

theorem counter_starts_at_zero_and_steps_by_one:
  "counter (fst (startup t0)) = 0
   \<and> radio_node (fst (startup t0)) = 1
   \<and> sends (snd (startup t0)) = [Send ''Startup message 0 from node 1'' False]
   \<and> counter (fst (loop_body rnd s i)) =
       (if transmit_interval < rnd (t_check i - now s) then counter s + 1 else counter s)
   \<and> sends (snd (loop_body rnd s i)) =
       (if transmit_interval < rnd (t_check i - now s)
        then [Send (''msg num '' @ str_int (counter s + 1) @ '' node '' @
                    str_int (radio_node s)) True]
        else [])
   \<and> counter (fst (run rnd (fst (startup t0)) is)) =
       int (length (sends (snd (run rnd (fst (startup t0)) is))))"
proof -
  have a: "counter (fst (startup t0)) = 0 \<and> radio_node (fst (startup t0)) = 1"
    by (simp add: startup_def)
  have b: "sends (snd (startup t0)) = [Send ''Startup message 0 from node 1'' False]"
    by (simp add: startup_def sends_def str_int_0 str_int_1)
  have c: "counter (fst (loop_body rnd s i)) =
       (if transmit_interval < rnd (t_check i - now s) then counter s + 1 else counter s)"
    by (simp add: loop_body_state Let_def)
  have d: "sends (snd (loop_body rnd s i)) =
       (if transmit_interval < rnd (t_check i - now s)
        then [Send (''msg num '' @ str_int (counter s + 1) @ '' node '' @
                    str_int (radio_node s)) True]
        else [])"
    by (rule sends_loop_body)
  have e: "counter (fst (run rnd (fst (startup t0)) is)) =
       int (length (sends (snd (run rnd (fst (startup t0)) is))))"
    using counter_run [of rnd "fst (startup t0)" "is"] a by simp
  from a b c d e show ?thesis by blast
qed

subsection \<open>C3 and C4: the text lines of the frame\<close>

text \<open>
  Claim C3. When \<open>rfm9x.receive\<close> returns a packet, the frame on the display at the
  end of the iteration is the background followed by exactly two labels: first the text
  of the bytes after the first four, at \<open>y = 10\<close>, then the RSSI text, at
  \<open>y = 25\<close>. They are appended in that order, and the first is higher on the screen
  (smaller \<open>y\<close>).
\<close>

theorem packet_frame_has_payload_then_rssi_line:
  "packet i = Some p \<Longrightarrow>
     frame_of (fst (loop_body rnd s i)) =
       [background,
        Label (bytes_repr (drop 4 p)) 0xFFFFFF 0 10,
        Label (''RSSI: '' @ str_int (last_rssi i)) 0xFFFFFF 0 25]
     \<and> labels (frame_of (fst (loop_body rnd s i))) =
       [Label (bytes_repr (drop 4 p)) 0xFFFFFF 0 10,
        Label (''RSSI: '' @ str_int (last_rssi i)) 0xFFFFFF 0 25]
     \<and> label_y (labels (frame_of (fst (loop_body rnd s i))) ! 0)
         < label_y (labels (frame_of (fst (loop_body rnd s i))) ! 1)
     \<and> filter is_Append (snd (loop_body rnd s i)) =
       [Append (length (groups s)) background,
        Append (length (groups s)) (Label (bytes_repr (drop 4 p)) 0xFFFFFF 0 10),
        Append (length (groups s)) (Label (''RSSI: '' @ str_int (last_rssi i)) 0xFFFFFF 0 25)]"
  by (simp add: frame_of_loop_body labels_def background_def loop_body_events)

theorem packet_frame_has_payload_then_rssi_line_witness:
  "packet \<lparr>packet = Some ([CHR 0x01, CHR 0x02, CHR 0x05, CHR 0x00] @ ''hi''),
           last_rssi = - 7, t_check = 1, t_now = 1\<rparr>
     = Some ([CHR 0x01, CHR 0x02, CHR 0x05, CHR 0x00] @ ''hi'')
   \<and> labels (frame_of (fst (loop_body round_binary64 (fst (startup 0))
        \<lparr>packet = Some ([CHR 0x01, CHR 0x02, CHR 0x05, CHR 0x00] @ ''hi''),
         last_rssi = - 7, t_check = 1, t_now = 1\<rparr>))) =
       [Label (bytes_repr ''hi'') 0xFFFFFF 0 10,
        Label (''RSSI: '' @ str_int (- 7)) 0xFFFFFF 0 25]"
proof -
  let ?p = "[CHR 0x01, CHR 0x02, CHR 0x05, CHR 0x00] @ ''hi''"
  let ?i = "\<lparr>packet = Some ?p, last_rssi = - 7, t_check = 1, t_now = 1\<rparr>"
  have h: "packet ?i = Some ?p" by simp
  have "labels (frame_of (fst (loop_body round_binary64 (fst (startup 0)) ?i))) =
       [Label (bytes_repr (drop 4 ?p)) 0xFFFFFF 0 10,
        Label (''RSSI: '' @ str_int (last_rssi ?i)) 0xFFFFFF 0 25]"
    using packet_frame_has_payload_then_rssi_line [OF h, of round_binary64 "fst (startup 0)"]
    by blast
  then have "labels (frame_of (fst (loop_body round_binary64 (fst (startup 0)) ?i))) =
       [Label (bytes_repr ''hi'') 0xFFFFFF 0 10,
        Label (''RSSI: '' @ str_int (- 7)) 0xFFFFFF 0 25]"
    by simp
  with h show ?thesis by blast
qed

text \<open>
  Claim C4. When \<open>rfm9x.receive\<close> returns \<open>None\<close>, the frame on the display at the
  end of the iteration holds the background tile grid and no label, and the background
  is the only thing the iteration appended.
\<close>

theorem no_packet_frame_is_background_only:
  "packet i = None \<Longrightarrow>
     frame_of (fst (loop_body rnd s i)) = [background]
     \<and> labels (frame_of (fst (loop_body rnd s i))) = []
     \<and> filter is_Append (snd (loop_body rnd s i)) = [Append (length (groups s)) background]"
  by (simp add: frame_of_loop_body labels_def background_def loop_body_events)

theorem no_packet_frame_is_background_only_witness:
  "packet \<lparr>packet = None, last_rssi = 0, t_check = 5, t_now = 5\<rparr> = None
   \<and> frame_of (fst (loop_body round_binary64 (fst (startup 0))
        \<lparr>packet = None, last_rssi = 0, t_check = 5, t_now = 5\<rparr>)) = [background]
   \<and> labels (frame_of (fst (loop_body round_binary64 (fst (startup 0))
        \<lparr>packet = None, last_rssi = 0, t_check = 5, t_now = 5\<rparr>))) = []"
proof -
  let ?i = "\<lparr>packet = None, last_rssi = 0, t_check = 5, t_now = 5\<rparr>"
  have h: "packet ?i = None" by simp
  from no_packet_frame_is_background_only [OF h, of round_binary64 "fst (startup 0)"] h
  show ?thesis by blast
qed

subsection \<open>C5: one fresh frame per iteration\<close>

text \<open>
  Claim C5. Every iteration, whatever it receives and whether or not it sends, creates
  exactly one group; the group is new (its index is past every group that existed), it
  holds only the background once lines 69 to 77 have run, and it is the group on the
  display at the end of the iteration. The groups of earlier iterations are left as they
  were, and the frame at the end of the iteration is the same from any two starting
  states: nothing of an earlier frame is carried over.
\<close>

theorem one_fresh_frame_per_iteration:
  "filter is_NewGroup (snd (loop_body rnd s i)) = [NewGroup (length (groups s))]
   \<and> groups (fst (snd (make_frame s))) = groups s @ [[background]]
   \<and> root_group (fst (loop_body rnd s i)) = Some (length (groups s))
   \<and> length (groups (fst (loop_body rnd s i))) = Suc (length (groups s))
   \<and> take (length (groups s)) (groups (fst (loop_body rnd s i))) = groups s
   \<and> frame_of (fst (loop_body rnd s i)) = frame_of (fst (loop_body rnd s' i))"
proof -
  have a: "filter is_NewGroup (snd (loop_body rnd s i)) = [NewGroup (length (groups s))]"
    by (cases "packet i") (simp_all add: loop_body_events)
  have b: "groups (fst (snd (make_frame s))) = groups s @ [[background]]"
    by (simp add: make_frame_eq)
  have c: "root_group (fst (loop_body rnd s i)) = Some (length (groups s))
     \<and> length (groups (fst (loop_body rnd s i))) = Suc (length (groups s))
     \<and> take (length (groups s)) (groups (fst (loop_body rnd s i))) = groups s"
    by (simp add: loop_body_state Let_def)
  have d: "frame_of (fst (loop_body rnd s i)) = frame_of (fst (loop_body rnd s' i))"
    by (simp add: frame_of_loop_body)
  from a b c d show ?thesis by blast
qed

subsection \<open>C6: the order of the steps\<close>

text \<open>
  Claim C6. The events of every iteration are, in this order: the new frame (created,
  shown, given its background), the LED switched off, the receive poll, then a middle
  part, then the clock reading of the transmit test, then what the test leads to. The
  middle part reads no clock and sends nothing, and the time it spends in
  \<open>time.sleep\<close> is half a second when a packet came and zero otherwise. What follows
  the test is, when the transmit is due, the second clock reading and the send, and
  nothing otherwise: no sleep separates the test from the send. So the whole
  iteration sleeps for at most one dwell period, all of it between the poll and the
  test, and a transmit that is due at the test is sent in the same iteration whatever
  was received. Time spent outside \<open>time.sleep\<close> (drawing, printing) is not part of
  the model.
\<close>

theorem iteration_order_reset_poll_deadline:
  "(\<exists>mid post.
     snd (loop_body rnd s i) =
       [NewGroup (length (groups s)), Show (length (groups s)),
        Append (length (groups s)) background, Led False, Receive True (packet i)]
       @ mid @ Monotonic (t_check i) # post
     \<and> filter is_Monotonic mid = []
     \<and> sends mid = []
     \<and> sleep_total mid = (if packet i = None then 0 else 1 / 2)
     \<and> sleep_total mid \<le> 1 / 2
     \<and> length (sends post) = (if transmit_interval < rnd (t_check i - now s) then 1 else 0)
     \<and> post =
         (if transmit_interval < rnd (t_check i - now s)
          then [Monotonic (t_now i),
                Send (''msg num '' @ str_int (counter s + 1) @ '' node '' @
                      str_int (radio_node s)) True]
          else [])
     \<and> sleep_total post = 0)
   \<and> sleep_total (snd (loop_body rnd s i)) = (if packet i = None then 0 else 1 / 2)
   \<and> sleep_total (snd (loop_body rnd s i)) \<le> 1 / 2"
proof (cases "packet i")
  case None
  have ex: "\<exists>mid post.
     snd (loop_body rnd s i) =
       [NewGroup (length (groups s)), Show (length (groups s)),
        Append (length (groups s)) background, Led False, Receive True (packet i)]
       @ mid @ Monotonic (t_check i) # post
     \<and> filter is_Monotonic mid = []
     \<and> sends mid = []
     \<and> sleep_total mid = (if packet i = None then 0 else 1 / 2)
     \<and> sleep_total mid \<le> 1 / 2
     \<and> length (sends post) = (if transmit_interval < rnd (t_check i - now s) then 1 else 0)
     \<and> post =
         (if transmit_interval < rnd (t_check i - now s)
          then [Monotonic (t_now i),
                Send (''msg num '' @ str_int (counter s + 1) @ '' node '' @
                      str_int (radio_node s)) True]
          else [])
     \<and> sleep_total post = 0"
    apply (rule exI [of _ "[]"])
    apply (rule exI [of _ "if transmit_interval < rnd (t_check i - now s)
      then [Monotonic (t_now i),
            Send (''msg num '' @ str_int (counter s + 1) @ '' node '' @
                  str_int (radio_node s)) True]
      else []"])
    apply (simp add: loop_body_events None sends_def)
    done
  have whole: "sleep_total (snd (loop_body rnd s i)) = (if packet i = None then 0 else 1 / 2)"
    by (simp add: loop_body_events None)
  then have "sleep_total (snd (loop_body rnd s i)) \<le> 1 / 2" by simp
  with ex whole show ?thesis by blast
next
  case (Some p)
  have ex: "\<exists>mid post.
     snd (loop_body rnd s i) =
       [NewGroup (length (groups s)), Show (length (groups s)),
        Append (length (groups s)) background, Led False, Receive True (packet i)]
       @ mid @ Monotonic (t_check i) # post
     \<and> filter is_Monotonic mid = []
     \<and> sends mid = []
     \<and> sleep_total mid = (if packet i = None then 0 else 1 / 2)
     \<and> sleep_total mid \<le> 1 / 2
     \<and> length (sends post) = (if transmit_interval < rnd (t_check i - now s) then 1 else 0)
     \<and> post =
         (if transmit_interval < rnd (t_check i - now s)
          then [Monotonic (t_now i),
                Send (''msg num '' @ str_int (counter s + 1) @ '' node '' @
                      str_int (radio_node s)) True]
          else [])
     \<and> sleep_total post = 0"
    apply (rule exI [of _
      "[Print (''Received (raw header): '' @ list_repr (map py_hex (take 4 p))),
        Print (''Received (raw payload): bytearray('' @ bytes_repr (drop 4 p) @ '')''),
        Append (length (groups s)) (Label (bytes_repr (drop 4 p)) 0xFFFFFF 0 10),
        Print (''Received RSSI: '' @ str_int (last_rssi i)),
        Append (length (groups s)) (Label (''RSSI: '' @ str_int (last_rssi i)) 0xFFFFFF 0 25),
        Refresh, Led True, Sleep (1 / 2)]"])
    apply (rule exI [of _ "if transmit_interval < rnd (t_check i - now s)
      then [Monotonic (t_now i),
            Send (''msg num '' @ str_int (counter s + 1) @ '' node '' @
                  str_int (radio_node s)) True]
      else []"])
    apply (simp add: loop_body_events Some sends_def)
    done
  have whole: "sleep_total (snd (loop_body rnd s i)) = (if packet i = None then 0 else 1 / 2)"
    by (simp add: loop_body_events Some)
  then have "sleep_total (snd (loop_body rnd s i)) \<le> 1 / 2" by simp
  with ex whole show ?thesis by blast
qed

subsection \<open>C7: no address filter in the loop\<close>

text \<open>
  Claim C7. A packet whose header is \<open>dst, src, ident, flags\<close> is rendered whatever
  \<open>dst\<close> is: the frame gets the payload label and the RSSI label and
  \<open>display.refresh()\<close> is called once. The loop never compares \<open>dst\<close> with
  \<open>rfm9x.node\<close>, although the comment on line 81 speaks of accepting only packets
  addressed to this node.
\<close>

theorem packet_rendered_whatever_its_destination:
  "packet i = Some (dst # src # ident # flags # payload) \<Longrightarrow>
     labels (frame_of (fst (loop_body rnd s i))) =
       [Label (bytes_repr payload) 0xFFFFFF 0 10,
        Label (''RSSI: '' @ str_int (last_rssi i)) 0xFFFFFF 0 25]
     \<and> count_list (snd (loop_body rnd s i)) Refresh = 1"
  by (simp add: frame_of_loop_body labels_def background_def loop_body_events)

text \<open>A packet addressed to node 7 arrives at node 1 and is rendered.\<close>

theorem packet_rendered_whatever_its_destination_witness:
  "packet \<lparr>packet = Some (CHR 0x07 # CHR 0x02 # CHR 0x00 # CHR 0x00 # ''ping''),
           last_rssi = - 90, t_check = 0, t_now = 0\<rparr>
     = Some (CHR 0x07 # CHR 0x02 # CHR 0x00 # CHR 0x00 # ''ping'')
   \<and> radio_node (fst (startup 0)) \<noteq> int (of_char (CHR 0x07))
   \<and> labels (frame_of (fst (loop_body round_binary64 (fst (startup 0))
        \<lparr>packet = Some (CHR 0x07 # CHR 0x02 # CHR 0x00 # CHR 0x00 # ''ping''),
         last_rssi = - 90, t_check = 0, t_now = 0\<rparr>))) =
       [Label (bytes_repr ''ping'') 0xFFFFFF 0 10,
        Label (''RSSI: '' @ str_int (- 90)) 0xFFFFFF 0 25]
   \<and> count_list (snd (loop_body round_binary64 (fst (startup 0))
        \<lparr>packet = Some (CHR 0x07 # CHR 0x02 # CHR 0x00 # CHR 0x00 # ''ping''),
         last_rssi = - 90, t_check = 0, t_now = 0\<rparr>)) Refresh = 1"
proof -
  let ?i = "\<lparr>packet = Some (CHR 0x07 # CHR 0x02 # CHR 0x00 # CHR 0x00 # ''ping''),
             last_rssi = - 90, t_check = 0, t_now = 0\<rparr>"
  have h: "packet ?i = Some (CHR 0x07 # CHR 0x02 # CHR 0x00 # CHR 0x00 # ''ping'')"
    by simp
  have n: "radio_node (fst (startup 0)) \<noteq> int (of_char (CHR 0x07))"
    by (simp add: startup_def)
  have "labels (frame_of (fst (loop_body round_binary64 (fst (startup 0)) ?i))) =
       [Label (bytes_repr ''ping'') 0xFFFFFF 0 10,
        Label (''RSSI: '' @ str_int (last_rssi ?i)) 0xFFFFFF 0 25]
     \<and> count_list (snd (loop_body round_binary64 (fst (startup 0)) ?i)) Refresh = 1"
    by (rule packet_rendered_whatever_its_destination [OF h])
  then have "labels (frame_of (fst (loop_body round_binary64 (fst (startup 0)) ?i))) =
       [Label (bytes_repr ''ping'') 0xFFFFFF 0 10,
        Label (''RSSI: '' @ str_int (- 90)) 0xFFFFFF 0 25]
     \<and> count_list (snd (loop_body round_binary64 (fst (startup 0)) ?i)) Refresh = 1"
    by simp
  with h n show ?thesis by blast
qed

subsection \<open>C8: the \<open>hello\<close> scenario\<close>

text \<open>
  Claim C8. A packet of four header bytes followed by \<open>b"hello"\<close>, received with
  RSSI \<open>-42\<close>, puts two labels on the frame: the text \<open>b'hello'\<close> (what Python
  prints for these bytes) and the text \<open>RSSI: -42\<close>. After the receive poll the LED
  is switched on, the next event is the sleep of half a second, and only then comes the
  clock reading of the transmit test; the LED is still on when the iteration ends.
\<close>

theorem hello_packet_scenario:
  "length h = 4 \<Longrightarrow> packet i = Some (h @ ''hello'') \<Longrightarrow> last_rssi i = - 42 \<Longrightarrow>
     labels (frame_of (fst (loop_body rnd s i))) =
       [Label (CHR ''b'' # CHR 0x27 # ''hello'' @ [CHR 0x27]) 0xFFFFFF 0 10,
        Label ''RSSI: -42'' 0xFFFFFF 0 25]
     \<and> (\<exists>pre post. snd (loop_body rnd s i) =
           pre @ [Led True, Sleep (1 / 2), Monotonic (t_check i)] @ post
           \<and> Receive True (packet i) \<in> set pre)
     \<and> led (fst (loop_body rnd s i))"
proof -
  assume h: "length h = 4" and p: "packet i = Some (h @ ''hello'')" and r: "last_rssi i = - 42"
  have a: "labels (frame_of (fst (loop_body rnd s i))) =
       [Label (CHR ''b'' # CHR 0x27 # ''hello'' @ [CHR 0x27]) 0xFFFFFF 0 10,
        Label ''RSSI: -42'' 0xFFFFFF 0 25]"
    using h p r
    by (simp add: frame_of_loop_body labels_def background_def bytes_repr_hello str_int_minus_42)
  have b: "\<exists>pre post. snd (loop_body rnd s i) =
           pre @ [Led True, Sleep (1 / 2), Monotonic (t_check i)] @ post
           \<and> Receive True (packet i) \<in> set pre"
    apply (rule exI [of _ "[NewGroup (length (groups s)), Show (length (groups s)),
        Append (length (groups s)) background, Led False, Receive True (packet i),
        Print (''Received (raw header): '' @ list_repr (map py_hex (take 4 (h @ ''hello'')))),
        Print (''Received (raw payload): bytearray('' @ bytes_repr (drop 4 (h @ ''hello'')) @ '')''),
        Append (length (groups s)) (Label (bytes_repr (drop 4 (h @ ''hello''))) 0xFFFFFF 0 10),
        Print (''Received RSSI: '' @ str_int (last_rssi i)),
        Append (length (groups s)) (Label (''RSSI: '' @ str_int (last_rssi i)) 0xFFFFFF 0 25),
        Refresh]"])
    apply (rule exI [of _ "if transmit_interval < rnd (t_check i - now s)
      then [Monotonic (t_now i),
            Send (''msg num '' @ str_int (counter s + 1) @ '' node '' @
                  str_int (radio_node s)) True]
      else []"])
    apply (simp add: loop_body_events p)
    done
  have c: "led (fst (loop_body rnd s i))"
    using p by (simp add: loop_body_state Let_def)
  from a b c show ?thesis by blast
qed

theorem hello_packet_scenario_witness:
  "length [CHR 0x01, CHR 0x02, CHR 0x00, CHR 0x00] = 4
   \<and> packet \<lparr>packet = Some ([CHR 0x01, CHR 0x02, CHR 0x00, CHR 0x00] @ ''hello''),
             last_rssi = - 42, t_check = 1 / 2, t_now = 1 / 2\<rparr>
       = Some ([CHR 0x01, CHR 0x02, CHR 0x00, CHR 0x00] @ ''hello'')
   \<and> last_rssi \<lparr>packet = Some ([CHR 0x01, CHR 0x02, CHR 0x00, CHR 0x00] @ ''hello''),
                last_rssi = - 42, t_check = 1 / 2, t_now = 1 / 2\<rparr> = - 42
   \<and> labels (frame_of (fst (loop_body round_binary64 (fst (startup 0))
        \<lparr>packet = Some ([CHR 0x01, CHR 0x02, CHR 0x00, CHR 0x00] @ ''hello''),
         last_rssi = - 42, t_check = 1 / 2, t_now = 1 / 2\<rparr>))) =
       [Label (CHR ''b'' # CHR 0x27 # ''hello'' @ [CHR 0x27]) 0xFFFFFF 0 10,
        Label ''RSSI: -42'' 0xFFFFFF 0 25]
   \<and> led (fst (loop_body round_binary64 (fst (startup 0))
        \<lparr>packet = Some ([CHR 0x01, CHR 0x02, CHR 0x00, CHR 0x00] @ ''hello''),
         last_rssi = - 42, t_check = 1 / 2, t_now = 1 / 2\<rparr>))"
proof -
  let ?h = "[CHR 0x01, CHR 0x02, CHR 0x00, CHR 0x00]"
  let ?i = "\<lparr>packet = Some (?h @ ''hello''), last_rssi = - 42,
             t_check = 1 / 2, t_now = 1 / 2\<rparr>"
  have h1: "length ?h = 4" by simp
  have h2: "packet ?i = Some (?h @ ''hello'')" by simp
  have h3: "last_rssi ?i = - 42" by simp
  from hello_packet_scenario [OF h1 h2 h3, of round_binary64 "fst (startup 0)"] h1 h2 h3
  show ?thesis by blast
qed

subsection \<open>C9: \<open>display.show\<close> and \<open>display.refresh\<close>\<close>

text \<open>
  Claim C9. Every iteration starts with: create the group, give it to
  \<open>display.show\<close>, append the background, switch the LED off, poll the radio. So the
  group is shown while nothing has been appended to it and before the poll, with or
  without a packet, and it is shown once. \<open>display.refresh()\<close> is called once in an
  iteration that received a packet and not at all in one that did not.
\<close>

theorem empty_frame_shown_before_poll_refresh_only_on_packet:
  "(\<exists>rest. snd (loop_body rnd s i) =
      [NewGroup (length (groups s)), Show (length (groups s)),
       Append (length (groups s)) background, Led False, Receive True (packet i)] @ rest)
   \<and> filter is_Show (snd (loop_body rnd s i)) = [Show (length (groups s))]
   \<and> count_list (snd (loop_body rnd s i)) Refresh = (if packet i = None then 0 else 1)"
  by (cases "packet i") (simp_all add: loop_body_events)

subsection \<open>C10: the header bytes stay out of the frame\<close>

text \<open>
  Claim C10. Take two packets that agree from index 4 on, received in otherwise equal
  iterations (same RSSI, same clock readings). The state after the iteration is the
  same for both, the labels on the frame are the same even from different starting
  states, and the events are the same once the console prints and the record of what
  the poll returned are left out: the header reaches the console and nothing else.
\<close>

theorem header_bytes_do_not_reach_frame:
  "drop 4 p = drop 4 q \<Longrightarrow>
     fst (loop_body rnd s (i\<lparr>packet := Some p\<rparr>)) = fst (loop_body rnd s (i\<lparr>packet := Some q\<rparr>))
     \<and> labels (frame_of (fst (loop_body rnd s (i\<lparr>packet := Some p\<rparr>)))) =
       labels (frame_of (fst (loop_body rnd s' (i\<lparr>packet := Some q\<rparr>))))
     \<and> filter (\<lambda>e. \<not> is_Print e \<and> \<not> is_Receive e) (snd (loop_body rnd s (i\<lparr>packet := Some p\<rparr>))) =
       filter (\<lambda>e. \<not> is_Print e \<and> \<not> is_Receive e) (snd (loop_body rnd s (i\<lparr>packet := Some q\<rparr>)))"
proof -
  assume pq: "drop 4 p = drop 4 q"
  have a: "fst (loop_body rnd s (i\<lparr>packet := Some p\<rparr>)) = fst (loop_body rnd s (i\<lparr>packet := Some q\<rparr>))"
    using pq by (simp add: loop_body_state Let_def)
  have b: "labels (frame_of (fst (loop_body rnd s (i\<lparr>packet := Some p\<rparr>)))) =
       labels (frame_of (fst (loop_body rnd s' (i\<lparr>packet := Some q\<rparr>))))"
    using pq by (simp add: frame_of_loop_body)
  have c: "filter (\<lambda>e. \<not> is_Print e \<and> \<not> is_Receive e) (snd (loop_body rnd s (i\<lparr>packet := Some p\<rparr>))) =
       filter (\<lambda>e. \<not> is_Print e \<and> \<not> is_Receive e) (snd (loop_body rnd s (i\<lparr>packet := Some q\<rparr>)))"
    using pq by (simp add: loop_body_events)
  from a b c show ?thesis by blast
qed

text \<open>Two packets with different headers and the payload \<open>ok\<close>.\<close>

theorem header_bytes_do_not_reach_frame_witness:
  "drop 4 ([CHR 0x01, CHR 0x02, CHR 0x03, CHR 0x04] @ ''ok'')
     = drop 4 ([CHR 0xFF, CHR 0x09, CHR 0x00, CHR 0x80] @ ''ok'')
   \<and> [CHR 0x01, CHR 0x02, CHR 0x03, CHR 0x04] @ ''ok''
       \<noteq> [CHR 0xFF, CHR 0x09, CHR 0x00, CHR 0x80] @ ''ok''
   \<and> fst (loop_body round_binary64 (fst (startup 0))
        (\<lparr>packet = None, last_rssi = - 60, t_check = 3, t_now = 3\<rparr>
           \<lparr>packet := Some ([CHR 0x01, CHR 0x02, CHR 0x03, CHR 0x04] @ ''ok'')\<rparr>))
     = fst (loop_body round_binary64 (fst (startup 0))
        (\<lparr>packet = None, last_rssi = - 60, t_check = 3, t_now = 3\<rparr>
           \<lparr>packet := Some ([CHR 0xFF, CHR 0x09, CHR 0x00, CHR 0x80] @ ''ok'')\<rparr>))"
proof -
  let ?p = "[CHR 0x01, CHR 0x02, CHR 0x03, CHR 0x04] @ ''ok''"
  let ?q = "[CHR 0xFF, CHR 0x09, CHR 0x00, CHR 0x80] @ ''ok''"
  have h: "drop 4 ?p = drop 4 ?q" by simp
  have d: "?p \<noteq> ?q" by simp
  from header_bytes_do_not_reach_frame
         [OF h, of round_binary64 "fst (startup 0)"
            "\<lparr>packet = None, last_rssi = - 60, t_check = 3, t_now = 3\<rparr>"] h d
  show ?thesis by blast
qed

end
